theory Spec2Isabelle
  imports Main "HOL-Library.DAList" "HOL-Library.Word"
begin

section \<open>The Edge driver module of selenium-webdriver (edge.js)\<close>

text \<open>
  The module defines three classes, \<^verbatim>\<open>Options\<close>, \<^verbatim>\<open>ServiceBuilder\<close> and \<^verbatim>\<open>Driver\<close>, and the
  two functions \<^verbatim>\<open>getDefaultService\<close> and \<^verbatim>\<open>setDefaultService\<close> around the module variable
  \<^verbatim>\<open>defaultService\<close>. Objects whose identity no claim depends on are records passed by value:
  a method that mutates \<^verbatim>\<open>this\<close> and returns it yields the receiver in its state after the
  call. Driver services are shared between the module variable and the drivers, so they live
  in a store and are named by reference.
\<close>

subsection \<open>JavaScript values\<close>

text \<open>
  The text of a string value is the list of its UTF-16 code units; \<open>js\<close> gives the code
  units of a literal of the source, whose characters are ASCII. Property names, paths and
  messages are only compared and concatenated, and are kept as \<^typ>\<open>string\<close>.
\<close>

type_synonym code_unit = "16 word"

type_synonym jsstring = "code_unit list"

definition js :: "string \<Rightarrow> jsstring" where
  "js s = map of_char s"

text \<open>
  Numbers are the integer-valued ones (ports, counters); \<^verbatim>\<open>NaN\<close> and fractions do not occur
  in the module. An object literal is the list of its own properties.
\<close>

datatype jsval =
    JUndefined
  | JNull
  | JBool bool
  | JNum int
  | JStr jsstring
  | JObj "(string \<times> jsval) list"

text \<open>\<^verbatim>\<open>ToBoolean\<close>, as applied by \<^verbatim>\<open>if (v)\<close>, \<^verbatim>\<open>!v\<close> and \<^verbatim>\<open>a || b\<close>.\<close>

fun truthy :: "jsval \<Rightarrow> bool" where
  "truthy JUndefined = False"
| "truthy JNull = False"
| "truthy (JBool b) = b"
| "truthy (JNum n) = (n \<noteq> 0)"
| "truthy (JStr s) = (s \<noteq> [])"
| "truthy (JObj ps) = True"

text \<open>The loose comparison \<^verbatim>\<open>v == null\<close>: true of \<^verbatim>\<open>null\<close> and of \<^verbatim>\<open>undefined\<close> only.\<close>

fun eq_null :: "jsval \<Rightarrow> bool" where
  "eq_null JUndefined = True"
| "eq_null JNull = True"
| "eq_null (JBool b) = False"
| "eq_null (JNum n) = False"
| "eq_null (JStr s) = False"
| "eq_null (JObj ps) = False"

text \<open>
  A plain object used as a dictionary (\<^verbatim>\<open>{}\<close>, then \<^verbatim>\<open>o[key] = v\<close>): its own properties in
  insertion order, every key once.
\<close>

type_synonym js_object = "(string, jsval) alist"

text \<open>
  \<^verbatim>\<open>String.prototype.toLowerCase\<close> is a built-in of the language. On a string of ASCII code
  units it lowers the letters \<^verbatim>\<open>A\<close> to \<^verbatim>\<open>Z\<close> and keeps every other code unit. What it
  computes on any other string, the case mapping of Unicode, is the parameter \<open>unicode\<close>:
  what is proved holds whatever that mapping is.
\<close>

definition lower_ascii :: "code_unit \<Rightarrow> code_unit" where
  "lower_ascii c = (if 65 \<le> c \<and> c \<le> 90 then c + 32 else c)"

definition toLowerCase :: "(jsstring \<Rightarrow> jsstring) \<Rightarrow> jsstring \<Rightarrow> jsstring" where
  "toLowerCase unicode s =
     (if list_all (\<lambda>c. c < 128) s then map lower_ascii s else unicode s)"

subsection \<open>Capabilities\<close>

text \<open>
  Modelled from the spec: the class \<^verbatim>\<open>webdriver.Capabilities\<close> is defined in the library's
  capabilities module, which is not part of the sources at hand. The spec describes it as a
  mapping from capability name to value that supports \<^verbatim>\<open>has(key)\<close>, \<^verbatim>\<open>get(key)\<close> and
  \<^verbatim>\<open>set(key, value)\<close>. The two queries return their answer together with the receiver, which
  they leave as it is; \<^verbatim>\<open>set\<close> returns the receiver with the entry written.
\<close>

type_synonym capabilities = "string \<rightharpoonup> jsval"

definition Capabilities_has :: "capabilities \<Rightarrow> string \<Rightarrow> bool \<times> capabilities" where
  "Capabilities_has caps key = (caps key \<noteq> None, caps)"

definition Capabilities_get :: "capabilities \<Rightarrow> string \<Rightarrow> jsval \<times> capabilities" where
  "Capabilities_get caps key = ((case caps key of Some v \<Rightarrow> v | None \<Rightarrow> JNull), caps)"

definition Capabilities_set :: "capabilities \<Rightarrow> string \<Rightarrow> jsval \<Rightarrow> capabilities" where
  "Capabilities_set caps key v = caps(key \<mapsto> v)"

text \<open>
  Modelled from the spec: \<^verbatim>\<open>webdriver.Capabilities.edge()\<close>, the factory of the library that
  produces a fresh capabilities map pre-populated with the identity marker of the browser,
  and \<^verbatim>\<open>webdriver.Capability.PROXY\<close>, the name of the proxy capability.
\<close>

definition new_Capabilities :: capabilities where
  "new_Capabilities key = None"

definition Capabilities_edge :: capabilities where
  "Capabilities_edge = Capabilities_set new_Capabilities ''browserName'' (JStr (js ''MicrosoftEdge''))"

definition Capability_PROXY :: string where
  "Capability_PROXY = ''proxy''"

subsection \<open>Options\<close>

definition PAGE_LOAD_STRATEGY :: string where
  "PAGE_LOAD_STRATEGY = ''pageLoadStrategy''"

text \<open>The enumeration \<^verbatim>\<open>CAPABILITY_KEY\<close>: property name and option key.\<close>

definition CAPABILITY_KEY :: "(string \<times> string) list" where
  "CAPABILITY_KEY = [(''PAGE_LOAD_STRATEGY'', PAGE_LOAD_STRATEGY)]"

record options =
  priv_options :: js_object
  priv_proxy :: jsval

text \<open>The constructor: no settings, no proxy.\<close>

definition new_Options :: options where
  "new_Options = \<lparr>priv_options = DAList.empty, priv_proxy = JNull\<rparr>"

text \<open>\<^verbatim>\<open>setProxy\<close> returns \<^verbatim>\<open>this\<close>: the result is the receiver after the call.\<close>

definition setProxy :: "options \<Rightarrow> jsval \<Rightarrow> options" where
  "setProxy this proxy = this\<lparr>priv_proxy := proxy\<rparr>"

text \<open>
  \<^verbatim>\<open>setPageLoadStrategy\<close>: the parameter is a string, as documented. The result is the
  value the call returns, which is \<^verbatim>\<open>this\<close>, and the receiver after the call.
\<close>

definition setPageLoadStrategy ::
    "(jsstring \<Rightarrow> jsstring) \<Rightarrow> options \<Rightarrow> jsstring \<Rightarrow> options \<times> options" where
  "setPageLoadStrategy unicode this pageLoadStrategy =
     (let this' = this\<lparr>priv_options :=
            DAList.update PAGE_LOAD_STRATEGY (JStr (toLowerCase unicode pageLoadStrategy))
              (priv_options this)\<rparr>
      in (this', this'))"

text \<open>
  One round of the loop of \<^verbatim>\<open>fromCapabilities\<close> over the keys of \<^verbatim>\<open>CAPABILITY_KEY\<close>: the
  settings object (\<^verbatim>\<open>map\<close> in the source) and the capabilities object are threaded through the two calls.
\<close>

fun copy_key :: "string \<times> string \<Rightarrow> js_object \<times> capabilities \<Rightarrow> js_object \<times> capabilities" where
  "copy_key (name, key) (settings, capabilities) =
     (case Capabilities_has capabilities key of
        (True, c1) \<Rightarrow>
          (case Capabilities_get c1 key of (v, c2) \<Rightarrow> (DAList.update key v settings, c2))
      | (False, c1) \<Rightarrow> (settings, c1))"

text \<open>
  \<^verbatim>\<open>Options.fromCapabilities\<close> returns the new options; the second component is the
  capabilities object it was given, after the calls made on it.
\<close>

definition fromCapabilities :: "capabilities \<Rightarrow> options \<times> capabilities" where
  "fromCapabilities capabilities =
     (let options = new_Options;
          (settings, c1) = fold copy_key CAPABILITY_KEY (priv_options options, capabilities);
          options = options\<lparr>priv_options := settings\<rparr>;
          (has_proxy, c2) = Capabilities_has c1 Capability_PROXY
      in if has_proxy
         then (let (proxy, c3) = Capabilities_get c2 Capability_PROXY
               in (setProxy options proxy, c3))
         else (options, c2))"

text \<open>
  \<^verbatim>\<open>toCapabilities\<close>: the base is the argument when one is given (an object is truthy) and a
  fresh \<^verbatim>\<open>Capabilities.edge()\<close> otherwise; the proxy is written when it is truthy, then every
  own property of the settings, in order.
\<close>

definition toCapabilities :: "options \<Rightarrow> capabilities option \<Rightarrow> capabilities" where
  "toCapabilities this opt_capabilities =
     (let capabilities = (case opt_capabilities of Some c \<Rightarrow> c | None \<Rightarrow> Capabilities_edge);
          capabilities =
            (if truthy (priv_proxy this)
             then Capabilities_set capabilities Capability_PROXY (priv_proxy this)
             else capabilities)
      in fold (\<lambda>(key, v) c. Capabilities_set c key v) (DAList.impl_of (priv_options this))
           capabilities)"

text \<open>\<^verbatim>\<open>serialize\<close>: the loop over the settings, copying what is not \<^verbatim>\<open>== null\<close>.\<close>

definition serialize :: "options \<Rightarrow> js_object" where
  "serialize this =
     fold (\<lambda>(key, v) json. if \<not> eq_null v then DAList.update key v json else json)
       (DAList.impl_of (priv_options this)) DAList.empty"

text \<open>
  The options objects that the module can produce: the settings field is private, so every
  instance comes from the constructor or from \<^verbatim>\<open>fromCapabilities\<close>, through the two setters.
\<close>

inductive api_options :: "options \<Rightarrow> bool" where
  constructed: "api_options new_Options"
| extracted: "api_options (fst (fromCapabilities caps))"
| proxy_set: "api_options this \<Longrightarrow> api_options (setProxy this proxy)"
| strategy_set: "api_options this \<Longrightarrow> api_options (snd (setPageLoadStrategy unicode this s))"

subsection \<open>Errors, promises and the world outside\<close>

datatype error = Error string | TypeError string

text \<open>
  Modelled from the spec: promises of the library's promise module. A promise is the outcome
  it settles to. \<^verbatim>\<open>when(value, callback)\<close> accepts a plain value or a promise of one and
  promises the callback's result; \<^verbatim>\<open>thenFinally(callback)\<close> runs the callback whether the
  promise was fulfilled or rejected, and its result still reports the first failure.
\<close>

datatype 'a promise = Fulfilled 'a | Rejected error

datatype 'a deferred = Immediate 'a | Deferred "'a promise"

fun promise_when :: "'a deferred \<Rightarrow> ('a \<Rightarrow> 'b) \<Rightarrow> 'b promise" where
  "promise_when (Immediate v) callback = Fulfilled (callback v)"
| "promise_when (Deferred (Fulfilled v)) callback = Fulfilled (callback v)"
| "promise_when (Deferred (Rejected e)) callback = Rejected e"

fun thenFinally :: "'s \<Rightarrow> 'a promise \<Rightarrow> ('s \<Rightarrow> 'b promise \<times> 's) \<Rightarrow> 'a promise \<times> 's" where
  "thenFinally w (Fulfilled v) callback =
     (case callback w of
        (Fulfilled u, w') \<Rightarrow> (Fulfilled v, w')
      | (Rejected e, w') \<Rightarrow> (Rejected e, w'))"
| "thenFinally w (Rejected e) callback =
     (case callback w of (q, w') \<Rightarrow> (Rejected e, w'))"

text \<open>Decimal form of a number, as string concatenation produces it.\<close>

fun show_nat :: "nat \<Rightarrow> string" where
  "show_nat n =
     (if n < 10 then [''0123456789'' ! n]
      else show_nat (n div 10) @ [''0123456789'' ! (n mod 10)])"

declare show_nat.simps [simp del]

definition show_int :: "int \<Rightarrow> string" where
  "show_int i = (if i < 0 then CHR ''-'' # show_nat (nat (- i)) else show_nat (nat i))"

datatype stdio = Stdio string | StdioArray "jsval list"

record service_options =
  loopback :: bool
  path :: "string option"
  port :: "int deferred"
  args :: "string list promise"
  env :: "(string \<times> string) list option"
  stdio :: stdio

text \<open>
  Modelled from the spec: the class \<^verbatim>\<open>remote.DriverService\<close> of the library's remote module.
  A service is constructed from an executable path and its options, and exposes
  \<^verbatim>\<open>start()\<close>, \<^verbatim>\<open>kill()\<close> and \<^verbatim>\<open>isRunning()\<close>; it is not running until started.
\<close>

record driver_service =
  executable :: string
  service_options :: service_options
  running :: bool

text \<open>Calls that reach a driver process or a remote session, in the order they are made.\<close>

datatype event =
    ServiceStart nat
  | ServiceKill nat
  | SessionCreate nat
  | SessionQuit nat

datatype flow = Flow nat

text \<open>
  The state around the module: what the collaborators answer (the search path, the disk, the
  port prober, the endpoints and the remote end), the store of driver services, the sessions
  created so far, the calls made, and the module variable \<^verbatim>\<open>defaultService\<close>, where
  \<^verbatim>\<open>null\<close> is \<open>None\<close>.
\<close>

record world =
  find_in_path :: "string \<Rightarrow> bool \<Rightarrow> string option"
  exists_on_disk :: "string \<Rightarrow> bool"
  free_port :: "int deferred"
  endpoint :: "nat \<Rightarrow> string promise"
  quit_result :: "nat \<Rightarrow> unit promise"
  active_flow :: flow
  services :: "driver_service list"
  sessions :: "capabilities list"
  calls :: "event list"
  defaultService :: "nat option"

text \<open>
  Modelled from the spec: the lookups \<^verbatim>\<open>io.findInPath\<close> (a resolved path, or \<^verbatim>\<open>null\<close>),
  \<^verbatim>\<open>fs.existsSync\<close> and \<^verbatim>\<open>portprober.findFreePort\<close> (a port, now or deferred). They answer
  from the world and leave it as it is.
\<close>

definition io_findInPath :: "world \<Rightarrow> string \<Rightarrow> bool \<Rightarrow> string option \<times> world" where
  "io_findInPath w file flag = (find_in_path w file flag, w)"

definition fs_existsSync :: "world \<Rightarrow> string \<Rightarrow> bool \<times> world" where
  "fs_existsSync w file = (exists_on_disk w file, w)"

definition portprober_findFreePort :: "world \<Rightarrow> int deferred \<times> world" where
  "portprober_findFreePort w = (free_port w, w)"

definition new_DriverService :: "world \<Rightarrow> string \<Rightarrow> service_options \<Rightarrow> nat \<times> world" where
  "new_DriverService w exe opts =
     (length (services w),
      w\<lparr>services :=
          services w @ [\<lparr>executable = exe, service_options = opts, running = False\<rparr>]\<rparr>)"

definition DriverService_isRunning :: "world \<Rightarrow> nat \<Rightarrow> bool \<times> world" where
  "DriverService_isRunning w r = (r < length (services w) \<and> running (services w ! r), w)"

definition DriverService_start :: "world \<Rightarrow> nat \<Rightarrow> string promise \<times> world" where
  "DriverService_start w r =
     (endpoint w r,
      w\<lparr>services := (services w)[r := (services w ! r)\<lparr>running := True\<rparr>],
         calls := calls w @ [ServiceStart r]\<rparr>)"

definition DriverService_kill :: "world \<Rightarrow> nat \<Rightarrow> unit promise \<times> world" where
  "DriverService_kill w r =
     (Fulfilled (),
      w\<lparr>services := (services w)[r := (services w ! r)\<lparr>running := False\<rparr>],
         calls := calls w @ [ServiceKill r]\<rparr>)"

subsection \<open>ServiceBuilder\<close>

definition EDGEDRIVER_EXE :: string where
  "EDGEDRIVER_EXE = ''MicrosoftWebDriver.exe''"

text \<open>
  The fields \<^verbatim>\<open>path_\<close>, \<^verbatim>\<open>port_\<close> and \<^verbatim>\<open>env_\<close> start from the defaults of the prototype
  (\<^verbatim>\<open>null\<close>, \<^verbatim>\<open>0\<close>, \<^verbatim>\<open>null\<close>).
\<close>

record service_builder =
  priv_exe :: string
  priv_args :: "string list"
  priv_stdio :: stdio
  priv_path :: "string option"
  priv_port :: int
  priv_env :: "(string \<times> string) list option"

text \<open>Truthiness of an optional string: \<^verbatim>\<open>undefined\<close>, \<^verbatim>\<open>null\<close> and \<^verbatim>\<open>''\<close> are falsy.\<close>

fun truthy_string :: "string option \<Rightarrow> bool" where
  "truthy_string None = False"
| "truthy_string (Some s) = (s \<noteq> [])"

definition not_found_message :: string where
  "not_found_message =
     ''The '' @ EDGEDRIVER_EXE @ '' could not be found on the current PATH. '' @
     ''Please download the latest version of the MicrosoftEdgeDriver from '' @
     ''https://www.microsoft.com/en-us/download/details.aspx?id=48212 and '' @
     ''ensure it can be found on your PATH.''"

text \<open>
  The constructor. \<^verbatim>\<open>opt_exe || io.findInPath(EDGEDRIVER_EXE, true)\<close> searches the path only
  when no usable path is given; a throw leaves no builder behind.
\<close>

definition new_ServiceBuilder :: "world \<Rightarrow> string option \<Rightarrow> (error + service_builder) \<times> world" where
  "new_ServiceBuilder w opt_exe =
     (let (exe, w1) =
            (if truthy_string opt_exe then (opt_exe, w) else io_findInPath w EDGEDRIVER_EXE True)
      in case exe of
           None \<Rightarrow> (Inl (Error not_found_message), w1)
         | Some file \<Rightarrow>
             if \<not> truthy_string (Some file) then (Inl (Error not_found_message), w1)
             else (case fs_existsSync w1 file of
                     (False, w2) \<Rightarrow> (Inl (Error (''File does not exist: '' @ file)), w2)
                   | (True, w2) \<Rightarrow>
                       (Inr \<lparr>priv_exe = file, priv_args = [], priv_stdio = Stdio ''ignore'',
                              priv_path = None, priv_port = 0, priv_env = None\<rparr>, w2)))"

definition setStdio :: "service_builder \<Rightarrow> stdio \<Rightarrow> service_builder" where
  "setStdio this config = this\<lparr>priv_stdio := config\<rparr>"

text \<open>
  \<^verbatim>\<open>usingPort\<close>: what the call yields (the error thrown, or \<^verbatim>\<open>this\<close>) and the receiver after
  the call.
\<close>

definition usingPort :: "service_builder \<Rightarrow> int \<Rightarrow> (error + service_builder) \<times> service_builder" where
  "usingPort this p =
     (if p < 0 then (Inl (Error (''port must be >= 0: '' @ show_int p)), this)
      else (let this' = this\<lparr>priv_port := p\<rparr> in (Inr this', this')))"

definition withEnvironment :: "service_builder \<Rightarrow> (string \<times> string) list option \<Rightarrow> service_builder" where
  "withEnvironment this e = this\<lparr>priv_env := e\<rparr>"

text \<open>
  \<^verbatim>\<open>build\<close>: \<^verbatim>\<open>this.port_ || portprober.findFreePort()\<close> asks the prober only when the
  stored port is \<^verbatim>\<open>0\<close>. The result is the reference of the new service.
\<close>

definition build :: "world \<Rightarrow> service_builder \<Rightarrow> nat \<times> world" where
  "build w this =
     (let (p, w1) =
            (if priv_port this \<noteq> 0 then (Immediate (priv_port this), w)
             else portprober_findFreePort w);
          as = priv_args this
      in new_DriverService w1 (priv_exe this)
           \<lparr>loopback = True,
            path = priv_path this,
            port = p,
            args = promise_when p (\<lambda>n. as @ [''--port='' @ show_int n]),
            env = priv_env this,
            stdio = priv_stdio this\<rparr>)"

subsection \<open>The default service\<close>

definition setDefaultService :: "world \<Rightarrow> nat option \<Rightarrow> (error + unit) \<times> world" where
  "setDefaultService w service =
     (case (case defaultService w of
              None \<Rightarrow> (False, w)
            | Some r \<Rightarrow> DriverService_isRunning w r) of
        (True, w1) \<Rightarrow>
          (Inl (Error (''The previously configured EdgeDriver service is still running. '' @
                       ''You must shut it down before you may adjust its configuration.'')), w1)
      | (False, w1) \<Rightarrow> (Inr (), w1\<lparr>defaultService := service\<rparr>))"

text \<open>
  \<^verbatim>\<open>getDefaultService\<close> returns the value of the module variable, after having filled it when
  it was \<^verbatim>\<open>null\<close>. A throw of the constructor leaves the function before the assignment.
\<close>

definition getDefaultService :: "world \<Rightarrow> (error + nat option) \<times> world" where
  "getDefaultService w =
     (case (if defaultService w = None
            then (case new_ServiceBuilder w None of
                    (Inl e, w1) \<Rightarrow> (Inl e, w1)
                  | (Inr builder, w1) \<Rightarrow>
                      (case build w1 builder of
                         (r, w2) \<Rightarrow> (Inr (), w2\<lparr>defaultService := Some r\<rparr>)))
            else (Inr (), w)) of
        (Inl e, w') \<Rightarrow> (Inl e, w')
      | (Inr u, w') \<Rightarrow> (Inr (defaultService w'), w'))"

subsection \<open>Driver\<close>

text \<open>
  Modelled from the spec: the executor factory \<^verbatim>\<open>executors.createExecutor\<close>, which takes the
  endpoint of a started service, and the class \<^verbatim>\<open>webdriver.WebDriver\<close> of the library: its
  session-creation entry point \<^verbatim>\<open>createSession(executor, capabilities, opt_flow)\<close> and the
  inherited \<^verbatim>\<open>quit()\<close>, which closes the remote session and may be rejected.
\<close>

datatype executor = Executor "string promise"

definition createExecutor :: "string promise \<Rightarrow> executor" where
  "createExecutor url = Executor url"

record webdriver =
  session :: nat
  executor :: executor
  controlFlow :: flow

definition WebDriver_createSession ::
    "world \<Rightarrow> executor \<Rightarrow> capabilities \<Rightarrow> flow option \<Rightarrow> webdriver \<times> world" where
  "WebDriver_createSession w ex caps opt_flow =
     (\<lparr>session = length (sessions w), executor = ex,
       controlFlow = (case opt_flow of Some f \<Rightarrow> f | None \<Rightarrow> active_flow w)\<rparr>,
      w\<lparr>sessions := sessions w @ [caps],
         calls := calls w @ [SessionCreate (length (sessions w))]\<rparr>)"

definition WebDriver_quit :: "world \<Rightarrow> 'a webdriver_scheme \<Rightarrow> unit promise \<times> world" where
  "WebDriver_quit w this =
     (quit_result w (session this), w\<lparr>calls := calls w @ [SessionQuit (session this)]\<rparr>)"

text \<open>
  A driver is a \<^verbatim>\<open>WebDriver\<close> together with the variable \<^verbatim>\<open>service\<close> that the closure of its
  own \<^verbatim>\<open>quit\<close> captured in the constructor.
\<close>

record driver = webdriver +
  service :: nat

datatype config = OptionsConfig options | CapabilitiesConfig capabilities

text \<open>
  The constructor. The service is \<^verbatim>\<open>opt_service || getDefaultService()\<close>; calling
  \<^verbatim>\<open>start\<close> on \<^verbatim>\<open>null\<close> would be a type error.
\<close>

definition new_Driver ::
    "world \<Rightarrow> config option \<Rightarrow> nat option \<Rightarrow> flow option \<Rightarrow> (error + driver) \<times> world" where
  "new_Driver w opt_config opt_service opt_flow =
     (case (case opt_service of
              Some r \<Rightarrow> (Inr (Some r), w)
            | None \<Rightarrow> getDefaultService w) of
        (Inl e, w1) \<Rightarrow> (Inl e, w1)
      | (Inr None, w1) \<Rightarrow> (Inl (TypeError ''Cannot read property start of null''), w1)
      | (Inr (Some svc), w1) \<Rightarrow>
          (case DriverService_start w1 svc of
             (url, w2) \<Rightarrow>
               (let ex = createExecutor url;
                    capabilities =
                      (case opt_config of
                         Some (OptionsConfig opts) \<Rightarrow> toCapabilities opts None
                       | Some (CapabilitiesConfig caps) \<Rightarrow> caps
                       | None \<Rightarrow> Capabilities_edge)
                in case WebDriver_createSession w2 ex capabilities opt_flow of
                     (drv, w3) \<Rightarrow>
                       (Inr \<lparr>session = session drv, executor = ex,
                              controlFlow = controlFlow drv, service = svc\<rparr>, w3))))"

text \<open>
  The \<^verbatim>\<open>quit\<close> installed by the constructor:
  \<^verbatim>\<open>boundQuit().thenFinally(service.kill.bind(service))\<close>.
\<close>

definition quit :: "world \<Rightarrow> driver \<Rightarrow> unit promise \<times> world" where
  "quit w this =
     (case WebDriver_quit w this of
        (p, w1) \<Rightarrow> thenFinally w1 p (\<lambda>w'. DriverService_kill w' (service this)))"

definition setFileDetector :: "driver \<Rightarrow> driver" where
  "setFileDetector this = this"

text \<open>
  The customisation shown in the overview of the file:
  \<^verbatim>\<open>new edge.ServiceBuilder().usingPort(port).build()\<close>. A throw ends the chain.
\<close>

definition custom_service :: "world \<Rightarrow> int \<Rightarrow> (error + nat) \<times> world" where
  "custom_service w p =
     (case new_ServiceBuilder w None of
        (Inl e, w1) \<Rightarrow> (Inl e, w1)
      | (Inr builder, w1) \<Rightarrow>
          (case usingPort builder p of
             (Inl e, builder') \<Rightarrow> (Inl e, w1)
           | (Inr this, builder') \<Rightarrow>
               (case build w1 this of (r, w2) \<Rightarrow> (Inr r, w2))))"

subsection \<open>Sample inputs\<close>

text \<open>
  A machine with the driver installed, where the remote end rejects a session quit, and the
  same machine without the driver on its search path.
\<close>

definition installed_path :: "string \<Rightarrow> bool \<Rightarrow> string option" where
  "installed_path file flag =
     (if file = EDGEDRIVER_EXE then Some ''C:/tools/MicrosoftWebDriver.exe'' else None)"

definition installed_disk :: "string \<Rightarrow> bool" where
  "installed_disk file = (file = ''C:/tools/MicrosoftWebDriver.exe'')"

definition empty_path :: "string \<Rightarrow> bool \<Rightarrow> string option" where
  "empty_path file flag = None"

definition local_endpoint :: "nat \<Rightarrow> string promise" where
  "local_endpoint r = Fulfilled ''http://127.0.0.1:17556''"

definition rejecting_quit :: "nat \<Rightarrow> unit promise" where
  "rejecting_quit s = Rejected (Error ''no such session'')"

definition installed_world :: world where
  "installed_world =
     \<lparr>find_in_path = installed_path, exists_on_disk = installed_disk,
      free_port = Deferred (Fulfilled 17556), endpoint = local_endpoint,
      quit_result = rejecting_quit, active_flow = Flow 0,
      services = [], sessions = [], calls = [], defaultService = None\<rparr>"

definition bare_world :: world where
  "bare_world = installed_world\<lparr>find_in_path := empty_path\<rparr>"

text \<open>The builder and the driver that the constructors yield on the first machine.\<close>

definition installed_builder :: service_builder where
  "installed_builder =
     \<lparr>priv_exe = ''C:/tools/MicrosoftWebDriver.exe'', priv_args = [],
      priv_stdio = Stdio ''ignore'', priv_path = None, priv_port = 0, priv_env = None\<rparr>"

definition first_driver :: driver where
  "first_driver =
     \<lparr>session = 0, executor = Executor (Fulfilled ''http://127.0.0.1:17556''),
      controlFlow = Flow 0, service = 0\<rparr>"

definition second_driver :: driver where
  "second_driver = first_driver\<lparr>session := 1\<rparr>"

text \<open>
  Options with a strategy and a proxy, and a base that holds one other capability. The
  strategy is ASCII, so that the Unicode mapping is not consulted.
\<close>

definition sample_options :: options where
  "sample_options =
     setProxy (snd (setPageLoadStrategy id new_Options (js ''EAGER'')))
       (JObj [(''proxyType'', JStr (js ''direct''))])"

definition sample_mapping :: "jsstring \<Rightarrow> jsstring" where
  "sample_mapping s = map (\<lambda>c. if c = 0xC9 then 0xE9 else lower_ascii c) s"


definition sample_base :: capabilities where
  "sample_base = Capabilities_set new_Capabilities ''platform'' (JStr (js ''WINDOWS''))"

section \<open>Properties of Options\<close>

lemma lookup_copy_loop:
  "distinct (map fst xs) \<Longrightarrow>
   DAList.lookup
     (fold (\<lambda>(key, v) json. if \<not> eq_null v then DAList.update key v json else json) xs acc) k =
   (case map_of xs k of
      Some v \<Rightarrow> if eq_null v then DAList.lookup acc k else Some v
    | None \<Rightarrow> DAList.lookup acc k)"
proof (induction xs arbitrary: acc k)
  case Nil
  then show ?case by simp
next
  case (Cons p xs)
  obtain k' v' where p: "p = (k', v')" by (cases p)
  from Cons.prems p have notin: "map_of xs k' = None" and dist: "distinct (map fst xs)"
    by (auto simp: map_of_eq_None_iff)
  show ?case
  proof (cases "k = k'")
    case True
    with notin show ?thesis
      by (simp add: p Cons.IH [OF dist] DAList.lookup_update)
  next
    case False
    then show ?thesis
      by (simp add: p Cons.IH [OF dist] DAList.lookup_update split: option.splits)
  qed
qed

lemma lookup_serialize:
  "DAList.lookup (serialize this) k =
   (case DAList.lookup (priv_options this) k of
      Some v \<Rightarrow> if eq_null v then None else Some v
    | None \<Rightarrow> None)"
proof -
  have "distinct (map fst (DAList.impl_of (priv_options this)))"
    by simp
  then show ?thesis
    unfolding serialize_def
    by (simp only: lookup_copy_loop DAList.lookup_empty) (simp add: DAList.lookup.rep_eq)
qed

lemma fromCapabilities_eq:
  "fromCapabilities caps =
     (\<lparr>priv_options =
         (if fst (Capabilities_has caps PAGE_LOAD_STRATEGY)
          then DAList.update PAGE_LOAD_STRATEGY (fst (Capabilities_get caps PAGE_LOAD_STRATEGY))
                 DAList.empty
          else DAList.empty),
       priv_proxy =
         (if fst (Capabilities_has caps Capability_PROXY)
          then fst (Capabilities_get caps Capability_PROXY) else JNull)\<rparr>,
      caps)"
  by (simp add: fromCapabilities_def CAPABILITY_KEY_def new_Options_def setProxy_def
      Capabilities_has_def Capabilities_get_def)

lemma lookup_set_loop:
  "distinct (map fst xs) \<Longrightarrow>
   fold (\<lambda>(key, v) c. Capabilities_set c key v) xs caps k =
   (case map_of xs k of Some v \<Rightarrow> Some v | None \<Rightarrow> caps k)"
proof (induction xs arbitrary: caps k)
  case Nil
  then show ?case by simp
next
  case (Cons p xs)
  obtain k' v' where p: "p = (k', v')" by (cases p)
  from Cons.prems p have notin: "map_of xs k' = None" and dist: "distinct (map fst xs)"
    by (auto simp: map_of_eq_None_iff)
  have "fold (\<lambda>(key, v) c. Capabilities_set c key v) (p # xs) caps k =
        fold (\<lambda>(key, v) c. Capabilities_set c key v) xs (Capabilities_set caps k' v') k"
    by (simp add: p)
  also have "\<dots> =
      (case map_of xs k of Some v \<Rightarrow> Some v | None \<Rightarrow> Capabilities_set caps k' v' k)"
    by (rule Cons.IH [OF dist])
  also have "\<dots> = (case map_of (p # xs) k of Some v \<Rightarrow> Some v | None \<Rightarrow> caps k)"
    using notin by (simp add: p Capabilities_set_def split: option.splits)
  finally show ?case .
qed

lemma api_options_keys:
  "api_options this \<Longrightarrow> DAList.lookup (priv_options this) k = Some v \<Longrightarrow>
   k = PAGE_LOAD_STRATEGY"
proof (induction arbitrary: v rule: api_options.induct)
  case constructed
  then show ?case by (simp add: new_Options_def)
next
  case (extracted caps)
  then show ?case
    by (simp add: fromCapabilities_eq DAList.lookup_update split: if_splits)
next
  case (proxy_set this proxy)
  then show ?case by (simp add: setProxy_def)
next
  case (strategy_set this unicode s)
  then show ?case
    by (simp add: setPageLoadStrategy_def Let_def DAList.lookup_update split: if_splits)
qed

lemma proxy_not_setting:
  assumes "api_options this"
  shows "DAList.lookup (priv_options this) Capability_PROXY = None"
proof (cases "DAList.lookup (priv_options this) Capability_PROXY")
  case None
  then show ?thesis by simp
next
  case (Some v)
  from api_options_keys [OF assms Some] show ?thesis
    by (simp add: Capability_PROXY_def PAGE_LOAD_STRATEGY_def)
qed

lemma sample_options_api: "api_options sample_options"
  unfolding sample_options_def by (intro api_options.intros)

lemma lower_EAGER: "toLowerCase unicode (js ''EAGER'') = js ''eager''"
  by (simp add: toLowerCase_def js_def lower_ascii_def)



text \<open>
  Claim C7. For every options object, \<^verbatim>\<open>toCapabilities\<close> writes every stored setting and,
  when a proxy is stored (the field is truthy, as a proxy configuration is), the proxy
  capability onto the base it is given, or onto a fresh \<^verbatim>\<open>Capabilities.edge()\<close> when none is
  given; every other key keeps the value of the base. The settings are written after the
  proxy; on the options that the module can produce no setting has the name of the proxy
  capability, so the proxy is what the result holds there. On empty options and no base the
  result is the fresh default map, which holds the identity marker only.
\<close>

theorem toCapabilities_merges_onto_base:
  "toCapabilities this opt_capabilities k =
     (case DAList.lookup (priv_options this) k of
        Some v \<Rightarrow> Some v
      | None \<Rightarrow>
          if k = Capability_PROXY \<and> truthy (priv_proxy this) then Some (priv_proxy this)
          else (case opt_capabilities of Some base \<Rightarrow> base | None \<Rightarrow> Capabilities_edge) k)
   \<and> (api_options this \<and> truthy (priv_proxy this) \<longrightarrow>
        toCapabilities this opt_capabilities Capability_PROXY = Some (priv_proxy this))
   \<and> toCapabilities new_Options None = Capabilities_edge"
proof -
  define base where
    "base = (case opt_capabilities of Some c \<Rightarrow> c | None \<Rightarrow> Capabilities_edge)"
  define start where
    "start = (if truthy (priv_proxy this)
              then Capabilities_set base Capability_PROXY (priv_proxy this) else base)"
  have pointwise: "toCapabilities this opt_capabilities k =
     (case DAList.lookup (priv_options this) k of
        Some v \<Rightarrow> Some v
      | None \<Rightarrow>
          if k = Capability_PROXY \<and> truthy (priv_proxy this) then Some (priv_proxy this)
          else base k)" for k
  proof -
    have "toCapabilities this opt_capabilities k =
          fold (\<lambda>(key, v) c. Capabilities_set c key v) (DAList.impl_of (priv_options this))
            start k"
      by (simp add: toCapabilities_def base_def start_def)
    also have "\<dots> = (case map_of (DAList.impl_of (priv_options this)) k of
                        Some v \<Rightarrow> Some v | None \<Rightarrow> start k)"
      by (rule lookup_set_loop) simp
    also have "\<dots> = (case DAList.lookup (priv_options this) k of
          Some v \<Rightarrow> Some v
        | None \<Rightarrow>
            if k = Capability_PROXY \<and> truthy (priv_proxy this) then Some (priv_proxy this)
            else base k)"
      by (simp add: start_def Capabilities_set_def DAList.lookup.rep_eq split: option.splits)
    finally show ?thesis .
  qed
  have proxy: "toCapabilities this opt_capabilities Capability_PROXY = Some (priv_proxy this)"
    if "api_options this \<and> truthy (priv_proxy this)"
    using that by (simp add: pointwise proxy_not_setting)
  have "toCapabilities new_Options None = Capabilities_edge"
    by (simp add: toCapabilities_def new_Options_def DAList.empty.rep_eq)
  with pointwise [of k] proxy show ?thesis
    unfolding base_def by simp
qed

text \<open>
  The sample options over the sample base: the proxy and the strategy are written, the
  platform of the base stays.
\<close>

theorem toCapabilities_witness:
  "api_options sample_options \<and> truthy (priv_proxy sample_options)
   \<and> toCapabilities sample_options (Some sample_base) Capability_PROXY =
       Some (JObj [(''proxyType'', JStr (js ''direct''))])
   \<and> toCapabilities sample_options (Some sample_base) PAGE_LOAD_STRATEGY =
       Some (JStr (js ''eager''))
   \<and> toCapabilities sample_options (Some sample_base) ''platform'' =
       Some (JStr (js ''WINDOWS''))"
proof -
  have proxy: "priv_proxy sample_options = JObj [(''proxyType'', JStr (js ''direct''))]"
    by (simp add: sample_options_def setProxy_def)
  have settings: "DAList.lookup (priv_options sample_options) k =
      (if k = PAGE_LOAD_STRATEGY then Some (JStr (js ''eager'')) else None)" for k
    by (simp add: sample_options_def setProxy_def setPageLoadStrategy_def new_Options_def
        Let_def DAList.lookup_update lower_EAGER)
  have base: "sample_base k = (if k = ''platform'' then Some (JStr (js ''WINDOWS'')) else None)"
    for k
    by (simp add: sample_base_def Capabilities_set_def new_Capabilities_def)
  from toCapabilities_merges_onto_base [of sample_options "Some sample_base" Capability_PROXY]
    toCapabilities_merges_onto_base [of sample_options "Some sample_base" PAGE_LOAD_STRATEGY]
    toCapabilities_merges_onto_base [of sample_options "Some sample_base" "''platform''"]
  show ?thesis
    using sample_options_api
    by (simp add: proxy settings base Capability_PROXY_def PAGE_LOAD_STRATEGY_def)
qed

text \<open>
  Claim C8. For every string and whatever the case mapping of Unicode is,
  \<^verbatim>\<open>setPageLoadStrategy\<close> returns its receiver, in which \<^verbatim>\<open>pageLoadStrategy\<close> now holds what
  \<^verbatim>\<open>toLowerCase\<close> answers on the argument and every other setting and the proxy are as
  before; \<^verbatim>\<open>serialize\<close> then shows that string. On an argument of ASCII code units the
  stored string is the argument with the letters \<^verbatim>\<open>A\<close> to \<^verbatim>\<open>Z\<close> lowered and has none of
  them left; on any other argument it is what the mapping of Unicode gives.
  \<^verbatim>\<open>setPageLoadStrategy("EAGER")\<close> on new options serializes to
  \<^verbatim>\<open>{pageLoadStrategy: "eager"}\<close>.
\<close>

theorem setPageLoadStrategy_stores_lower_case:
  "fst (setPageLoadStrategy unicode this s) = snd (setPageLoadStrategy unicode this s)
   \<and> DAList.lookup (priv_options (snd (setPageLoadStrategy unicode this s))) k =
       (if k = PAGE_LOAD_STRATEGY then Some (JStr (toLowerCase unicode s))
        else DAList.lookup (priv_options this) k)
   \<and> priv_proxy (snd (setPageLoadStrategy unicode this s)) = priv_proxy this
   \<and> DAList.lookup (serialize (snd (setPageLoadStrategy unicode this s))) PAGE_LOAD_STRATEGY =
       Some (JStr (toLowerCase unicode s))
   \<and> (list_all (\<lambda>c. c < 128) s \<longrightarrow>
        toLowerCase unicode s = map (\<lambda>c. if 65 \<le> c \<and> c \<le> 90 then c + 32 else c) s
        \<and> list_all (\<lambda>c. \<not> (65 \<le> c \<and> c \<le> 90)) (toLowerCase unicode s))
   \<and> (\<not> list_all (\<lambda>c. c < 128) s \<longrightarrow> toLowerCase unicode s = unicode s)
   \<and> serialize (snd (setPageLoadStrategy unicode new_Options (js ''EAGER''))) =
       DAList.update ''pageLoadStrategy'' (JStr (js ''eager'')) DAList.empty"
proof -
  have ascii: "toLowerCase unicode s = map (\<lambda>c. if 65 \<le> c \<and> c \<le> 90 then c + 32 else c) s
        \<and> list_all (\<lambda>c. \<not> (65 \<le> c \<and> c \<le> 90)) (toLowerCase unicode s)"
    if small: "list_all (\<lambda>c. c < 128) s"
  proof -
    have lowered: "\<not> (65 \<le> lower_ascii c \<and> lower_ascii c \<le> 90)" for c :: code_unit
      unfolding lower_ascii_def
      by (auto simp: word_le_nat_alt unat_word_ariths)
    have mapped: "toLowerCase unicode s = map lower_ascii s"
      using small by (simp add: toLowerCase_def)
    have "list_all (\<lambda>c. \<not> (65 \<le> c \<and> c \<le> 90)) (map lower_ascii s)"
      using lowered by (induction s) simp_all
    with mapped show ?thesis
      by (simp add: lower_ascii_def [abs_def])
  qed
  have other: "toLowerCase unicode s = unicode s" if "\<not> list_all (\<lambda>c. c < 128) s"
    using that by (simp add: toLowerCase_def)
  have eager: "serialize (snd (setPageLoadStrategy unicode new_Options (js ''EAGER''))) =
       DAList.update ''pageLoadStrategy'' (JStr (js ''eager'')) DAList.empty"
    by (simp add: serialize_def setPageLoadStrategy_def new_Options_def PAGE_LOAD_STRATEGY_def
        Let_def lower_EAGER DAList.update.rep_eq DAList.empty.rep_eq)
  have returned: "fst (setPageLoadStrategy unicode this s) = snd (setPageLoadStrategy unicode this s)"
    by (simp add: setPageLoadStrategy_def Let_def)
  have stored: "DAList.lookup (priv_options (snd (setPageLoadStrategy unicode this s))) k =
       (if k = PAGE_LOAD_STRATEGY then Some (JStr (toLowerCase unicode s))
        else DAList.lookup (priv_options this) k)"
    by (simp add: setPageLoadStrategy_def Let_def DAList.lookup_update)
  have proxy: "priv_proxy (snd (setPageLoadStrategy unicode this s)) = priv_proxy this"
    by (simp add: setPageLoadStrategy_def Let_def)
  have shown:
    "DAList.lookup (serialize (snd (setPageLoadStrategy unicode this s))) PAGE_LOAD_STRATEGY =
       Some (JStr (toLowerCase unicode s))"
    by (simp add: lookup_serialize setPageLoadStrategy_def Let_def DAList.lookup_update)
  from returned stored proxy shown ascii other eager show ?thesis
    by blast
qed

text \<open>
  An ASCII argument and one with a letter beyond ASCII, where the stored string is what the
  mapping of Unicode gives; the sample mapping lowers \<^verbatim>\<open>U+00C9\<close> and the ASCII letters.
\<close>

theorem setPageLoadStrategy_witness:
  "list_all (\<lambda>c. c < 128) (js ''Normal'')
   \<and> DAList.lookup (serialize (snd (setPageLoadStrategy sample_mapping new_Options (js ''Normal''))))
        PAGE_LOAD_STRATEGY = Some (JStr (js ''normal''))
   \<and> \<not> list_all (\<lambda>c. c < 128) ([0xC9, 0x41] :: jsstring)
   \<and> DAList.lookup (serialize (snd (setPageLoadStrategy sample_mapping new_Options [0xC9, 0x41])))
        PAGE_LOAD_STRATEGY = Some (JStr [0xE9, 0x61])"
proof -
  have ascii: "list_all (\<lambda>c. c < 128) (js ''Normal'')"
    by (simp add: js_def)
  have normal: "map (\<lambda>c. if 65 \<le> c \<and> c \<le> 90 then c + 32 else c) (js ''Normal'') = js ''normal''"
    by (simp add: js_def)
  have mapped: "sample_mapping [0xC9, 0x41] = [0xE9, 0x61]"
    by (simp add: sample_mapping_def lower_ascii_def)
  from setPageLoadStrategy_stores_lower_case [of sample_mapping new_Options "js ''Normal''"]
    setPageLoadStrategy_stores_lower_case [of sample_mapping new_Options "[0xC9, 0x41]"]
  show ?thesis
    using ascii normal mapped by simp
qed

text \<open>
  Claim C9. For every options object, \<^verbatim>\<open>serialize\<close> returns exactly the entries of the
  settings whose value is not null (the test of the source is \<^verbatim>\<open>!= null\<close>, which
  \<^verbatim>\<open>undefined\<close> fails as well). The proxy is no part of it: setting a proxy changes nothing
  in the result, and on the options that the module can produce, those taken from a
  capabilities map among them, the result has no entry for the proxy capability.
\<close>

theorem serialize_settings_without_proxy:
  "DAList.lookup (serialize this) k =
     (case DAList.lookup (priv_options this) k of
        Some v \<Rightarrow> if eq_null v then None else Some v
      | None \<Rightarrow> None)
   \<and> serialize (setProxy this proxy) = serialize this
   \<and> (api_options this \<longrightarrow> DAList.lookup (serialize this) Capability_PROXY = None)
   \<and> DAList.lookup (serialize (fst (fromCapabilities caps))) Capability_PROXY = None"
proof -
  have "serialize (setProxy this proxy) = serialize this"
    by (simp add: setProxy_def serialize_def)
  moreover have "DAList.lookup (serialize this) Capability_PROXY = None" if "api_options this"
    using that by (simp add: lookup_serialize proxy_not_setting)
  moreover have "DAList.lookup (serialize (fst (fromCapabilities caps))) Capability_PROXY = None"
    by (simp add: lookup_serialize proxy_not_setting api_options.extracted)
  ultimately show ?thesis
    by (simp add: lookup_serialize)
qed

text \<open>
  The sample options hold a proxy and serialize to \<^verbatim>\<open>{pageLoadStrategy: "eager"}\<close>.
\<close>

theorem serialize_witness:
  "api_options sample_options
   \<and> priv_proxy sample_options = JObj [(''proxyType'', JStr (js ''direct''))]
   \<and> DAList.lookup (serialize sample_options) Capability_PROXY = None
   \<and> DAList.lookup (serialize sample_options) PAGE_LOAD_STRATEGY = Some (JStr (js ''eager''))"
proof -
  have proxy: "priv_proxy sample_options = JObj [(''proxyType'', JStr (js ''direct''))]"
    by (simp add: sample_options_def setProxy_def)
  have settings: "DAList.lookup (priv_options sample_options) k =
      (if k = PAGE_LOAD_STRATEGY then Some (JStr (js ''eager'')) else None)" for k
    by (simp add: sample_options_def setProxy_def setPageLoadStrategy_def new_Options_def
        Let_def DAList.lookup_update lower_EAGER)
  from serialize_settings_without_proxy [of sample_options Capability_PROXY]
    serialize_settings_without_proxy [of sample_options PAGE_LOAD_STRATEGY]
  show ?thesis
    using sample_options_api by (simp add: proxy settings)
qed

text \<open>
  Claim C10. \<^verbatim>\<open>Options.fromCapabilities\<close> calls only \<^verbatim>\<open>has\<close> and \<^verbatim>\<open>get\<close> on the capabilities
  it is given: after the call the map is what it was before.
\<close>

theorem fromCapabilities_leaves_capabilities:
  "snd (fromCapabilities caps) = caps"
  by (simp add: fromCapabilities_eq)

section \<open>Properties of the service builder, the default service and the driver\<close>

lemma new_ServiceBuilder_world: "snd (new_ServiceBuilder w opt_exe) = w"
  by (auto simp: new_ServiceBuilder_def io_findInPath_def fs_existsSync_def Let_def
      split: option.splits prod.splits bool.splits if_splits)

lemma build_eq:
  "build w b =
     (length (services w),
      w\<lparr>services := services w @
          [\<lparr>executable = priv_exe b,
            service_options =
              \<lparr>loopback = True, path = priv_path b,
               port = (if priv_port b \<noteq> 0 then Immediate (priv_port b) else free_port w),
               args =
                 promise_when
                   (if priv_port b \<noteq> 0 then Immediate (priv_port b) else free_port w)
                   (\<lambda>n. priv_args b @ [''--port='' @ show_int n]),
               env = priv_env b, stdio = priv_stdio b\<rparr>,
            running = False\<rparr>]\<rparr>)"
  by (simp add: build_def portprober_findFreePort_def new_DriverService_def)

lemma getDefaultService_set:
  "defaultService w = Some r \<Longrightarrow> getDefaultService w = (Inr (Some r), w)"
  by (simp add: getDefaultService_def)

lemma getDefaultService_unset:
  "defaultService w = None \<Longrightarrow>
   getDefaultService w =
     (case new_ServiceBuilder w None of
        (Inl e, w1) \<Rightarrow> (Inl e, w1)
      | (Inr b, w1) \<Rightarrow>
          (Inr (Some (fst (build w1 b))),
           (snd (build w1 b))\<lparr>defaultService := Some (fst (build w1 b))\<rparr>))"
  by (simp add: getDefaultService_def split: prod.splits sum.splits)

lemma getDefaultService_returns:
  assumes "fst (getDefaultService w) = Inr s"
  shows "\<exists>r. s = Some r \<and> defaultService (snd (getDefaultService w)) = Some r"
proof (cases "defaultService w")
  case None
  with assms show ?thesis
    by (auto simp: getDefaultService_unset split: prod.splits sum.splits)
next
  case (Some r)
  with assms show ?thesis
    by (auto simp: getDefaultService_set)
qed

lemma new_Driver_service:
  assumes "fst (new_Driver w opt_config opt_service opt_flow) = Inr d"
  shows "(case opt_service of Some r \<Rightarrow> Inr (Some r) | None \<Rightarrow> fst (getDefaultService w))
           = Inr (Some (service d))"
  using assms
  by (auto simp: new_Driver_def Let_def split: option.splits prod.splits sum.splits)

lemma new_Driver_defaultService:
  "defaultService (snd (new_Driver w opt_config None opt_flow)) =
   defaultService (snd (getDefaultService w))"
  by (simp add: new_Driver_def Let_def DriverService_start_def WebDriver_createSession_def
      split: prod.splits option.splits sum.splits)

lemma new_Driver_default:
  assumes "fst (new_Driver w opt_config None opt_flow) = Inr d"
  shows "defaultService (snd (new_Driver w opt_config None opt_flow)) = Some (service d)"
proof -
  from new_Driver_service [OF assms] have "fst (getDefaultService w) = Inr (Some (service d))"
    by simp
  from getDefaultService_returns [OF this] show ?thesis
    by (simp add: new_Driver_defaultService)
qed

lemma new_Driver_reuses:
  assumes "defaultService w = Some r"
  shows "\<exists>d. fst (new_Driver w opt_config None opt_flow) = Inr d \<and> service d = r"
  using assms
  by (simp add: new_Driver_def getDefaultService_set Let_def split: prod.splits option.splits)

lemma quit_calls:
  "calls (snd (quit w d)) = calls w @ [SessionQuit (session d), ServiceKill (service d)]"
  by (cases "quit_result w (session d)")
     (simp_all add: quit_def WebDriver_quit_def DriverService_kill_def)

text \<open>
  Claim C1. A driver that the constructor returned holds the service resolved there: the
  one given, or else what \<^verbatim>\<open>getDefaultService\<close> returned. Its \<^verbatim>\<open>quit\<close>, called in any
  world (whatever the remote end answers to the session quit, fulfilment or rejection),
  makes two calls, in this order: the inherited session quit, then \<^verbatim>\<open>kill\<close> on that service.
\<close>

theorem quit_kills_service_after_session_quit:
  assumes "fst (new_Driver w0 opt_config opt_service opt_flow) = Inr d"
  shows "(case opt_service of Some r \<Rightarrow> Inr (Some r) | None \<Rightarrow> fst (getDefaultService w0))
           = Inr (Some (service d))
       \<and> calls (snd (quit w d)) = calls w @ [SessionQuit (session d), ServiceKill (service d)]"
  using new_Driver_service [OF assms] quit_calls by simp

text \<open>
  On the sample machine the session quit of the first driver is rejected, and the service
  is killed all the same.
\<close>

theorem quit_kills_service_witness:
  "fst (new_Driver installed_world None None None) = Inr first_driver
   \<and> fst (getDefaultService installed_world) = Inr (Some (service first_driver))
   \<and> fst (quit (snd (new_Driver installed_world None None None)) first_driver) =
       Rejected (Error ''no such session'')
   \<and> calls (snd (quit (snd (new_Driver installed_world None None None)) first_driver)) =
       [ServiceStart 0, SessionCreate 0, SessionQuit 0, ServiceKill 0]"
proof -
  note eval_defs =
    new_ServiceBuilder_def build_def new_DriverService_def io_findInPath_def
    fs_existsSync_def portprober_findFreePort_def installed_world_def installed_path_def
    installed_disk_def EDGEDRIVER_EXE_def installed_builder_def Let_def
    new_Driver_def getDefaultService_def DriverService_start_def WebDriver_createSession_def
    createExecutor_def local_endpoint_def first_driver_def
    quit_def WebDriver_quit_def DriverService_kill_def rejecting_quit_def
  have made: "fst (new_Driver installed_world None None None) = Inr first_driver"
    by (simp add: eval_defs)
  have before: "calls (snd (new_Driver installed_world None None None)) =
      [ServiceStart 0, SessionCreate 0]"
    by (simp add: eval_defs)
  have rejected: "fst (quit (snd (new_Driver installed_world None None None)) first_driver) =
      Rejected (Error ''no such session'')"
    by (simp add: eval_defs)
  from quit_kills_service_after_session_quit
    [OF made, of "snd (new_Driver installed_world None None None)"]
  show ?thesis
    using made before rejected by (simp add: first_driver_def)
qed

text \<open>
  Claim C2. \<^verbatim>\<open>setDefaultService\<close> throws exactly when a default service is stored and its
  \<^verbatim>\<open>isRunning()\<close> answers true; then the world, the stored reference with it, is as
  before. In every other case the stored reference becomes the argument and nothing else
  changes. In neither case is a service touched or a call made on one: no teardown.
\<close>

theorem setDefaultService_guarded_by_running:
  "isl (fst (setDefaultService w svc)) =
     (case defaultService w of Some r \<Rightarrow> fst (DriverService_isRunning w r) | None \<Rightarrow> False)
   \<and> snd (setDefaultService w svc) =
     (if (case defaultService w of
            Some r \<Rightarrow> fst (DriverService_isRunning w r) | None \<Rightarrow> False)
      then w else w\<lparr>defaultService := svc\<rparr>)
   \<and> services (snd (setDefaultService w svc)) = services w
   \<and> calls (snd (setDefaultService w svc)) = calls w"
  by (simp add: setDefaultService_def DriverService_isRunning_def
      split: option.splits bool.splits)

text \<open>
  After the first driver was made the default service runs, and replacing it throws; on the
  fresh machine nothing is stored, and the argument is taken.
\<close>

theorem setDefaultService_witness:
  "fst (setDefaultService (snd (new_Driver installed_world None None None)) (Some 7)) =
     Inl (Error (''The previously configured EdgeDriver service is still running. '' @
                 ''You must shut it down before you may adjust its configuration.''))
   \<and> defaultService
        (snd (setDefaultService (snd (new_Driver installed_world None None None)) (Some 7))) =
       Some 0
   \<and> fst (setDefaultService installed_world (Some 7)) = Inr ()
   \<and> defaultService (snd (setDefaultService installed_world (Some 7))) = Some 7"
proof -
  note eval_defs =
    new_ServiceBuilder_def build_def new_DriverService_def io_findInPath_def
    fs_existsSync_def portprober_findFreePort_def installed_world_def installed_path_def
    installed_disk_def EDGEDRIVER_EXE_def installed_builder_def Let_def
    new_Driver_def getDefaultService_def DriverService_start_def WebDriver_createSession_def
    createExecutor_def local_endpoint_def first_driver_def
    setDefaultService_def DriverService_isRunning_def
  have stored: "defaultService (snd (new_Driver installed_world None None None)) = Some 0"
    by (simp add: eval_defs)
  have live: "fst (DriverService_isRunning (snd (new_Driver installed_world None None None)) 0)"
    by (simp add: eval_defs)
  have thrown:
    "fst (setDefaultService (snd (new_Driver installed_world None None None)) (Some 7)) =
     Inl (Error (''The previously configured EdgeDriver service is still running. '' @
                 ''You must shut it down before you may adjust its configuration.''))"
    by (simp add: eval_defs)
  have unset: "defaultService installed_world = None"
    by (simp add: installed_world_def)
  have returned: "fst (setDefaultService installed_world (Some 7)) = Inr ()"
    by (simp add: eval_defs)
  from setDefaultService_guarded_by_running
      [of "snd (new_Driver installed_world None None None)" "Some 7"]
    setDefaultService_guarded_by_running [of installed_world "Some 7"]
  show ?thesis
    using stored live thrown unset returned by simp
qed

text \<open>
  Claim C3, as amended. Once a default service is stored, \<^verbatim>\<open>getDefaultService\<close> returns it
  and changes nothing. When none is stored it runs \<^verbatim>\<open>new ServiceBuilder().build()\<close>: if the
  constructor throws, the error is passed on and nothing is stored; otherwise the service
  built is stored and returned. Every call that returns, the first included, returns the
  stored instance, and the call after it returns the same one. Two drivers constructed one
  after the other without a service of their own, the first construction having returned,
  hold the same service.
\<close>

theorem getDefaultService_idempotent:
  "(defaultService w = Some r \<longrightarrow> getDefaultService w = (Inr (Some r), w))
   \<and> (defaultService w = None \<and> fst (new_ServiceBuilder w None) = Inl e \<longrightarrow>
        getDefaultService w = (Inl e, w))
   \<and> (defaultService w = None \<and> fst (new_ServiceBuilder w None) = Inr b \<longrightarrow>
        getDefaultService w =
          (Inr (Some (fst (build w b))),
           (snd (build w b))\<lparr>defaultService := Some (fst (build w b))\<rparr>))
   \<and> (fst (getDefaultService w) = Inr s \<longrightarrow>
        s \<noteq> None \<and> defaultService (snd (getDefaultService w)) = s
        \<and> getDefaultService (snd (getDefaultService w)) = (Inr s, snd (getDefaultService w)))
   \<and> (fst (new_Driver w config1 None flow1) = Inr d1 \<longrightarrow>
        (\<exists>d2. fst (new_Driver (snd (new_Driver w config1 None flow1)) config2 None flow2) = Inr d2
              \<and> service d2 = service d1))"
proof (intro conjI impI)
  assume "defaultService w = Some r"
  then show "getDefaultService w = (Inr (Some r), w)"
    by (rule getDefaultService_set)
next
  assume "defaultService w = None \<and> fst (new_ServiceBuilder w None) = Inl e"
  then show "getDefaultService w = (Inl e, w)"
    using new_ServiceBuilder_world [of w None]
    by (cases "new_ServiceBuilder w None") (simp add: getDefaultService_unset)
next
  assume "defaultService w = None \<and> fst (new_ServiceBuilder w None) = Inr b"
  then show "getDefaultService w =
          (Inr (Some (fst (build w b))),
           (snd (build w b))\<lparr>defaultService := Some (fst (build w b))\<rparr>)"
    using new_ServiceBuilder_world [of w None]
    by (cases "new_ServiceBuilder w None") (simp add: getDefaultService_unset)
next
  assume a: "fst (getDefaultService w) = Inr s"
  from getDefaultService_returns [OF a] obtain r where
    r: "s = Some r" "defaultService (snd (getDefaultService w)) = Some r"
    by blast
  then show "s \<noteq> None" by simp
  from r show "defaultService (snd (getDefaultService w)) = s" by simp
  from r show "getDefaultService (snd (getDefaultService w)) = (Inr s, snd (getDefaultService w))"
    by (simp add: getDefaultService_set)
next
  assume "fst (new_Driver w config1 None flow1) = Inr d1"
  then have "defaultService (snd (new_Driver w config1 None flow1)) = Some (service d1)"
    by (rule new_Driver_default)
  then show "\<exists>d2. fst (new_Driver (snd (new_Driver w config1 None flow1)) config2 None flow2) = Inr d2
              \<and> service d2 = service d1"
    by (rule new_Driver_reuses)
qed

text \<open>
  On the sample machine the first call builds service \<open>0\<close>, the second returns it again,
  and the first two drivers share it.
\<close>

theorem getDefaultService_witness:
  "defaultService installed_world = None
   \<and> fst (new_ServiceBuilder installed_world None) = Inr installed_builder
   \<and> fst (getDefaultService installed_world) = Inr (Some 0)
   \<and> getDefaultService (snd (getDefaultService installed_world)) =
       (Inr (Some 0), snd (getDefaultService installed_world))
   \<and> fst (new_Driver installed_world None None None) = Inr first_driver
   \<and> fst (new_Driver (snd (new_Driver installed_world None None None)) None None None) =
       Inr second_driver
   \<and> service second_driver = service first_driver"
proof -
  note eval_defs =
    new_ServiceBuilder_def build_def new_DriverService_def io_findInPath_def
    fs_existsSync_def portprober_findFreePort_def installed_world_def installed_path_def
    installed_disk_def EDGEDRIVER_EXE_def installed_builder_def Let_def
    new_Driver_def getDefaultService_def DriverService_start_def WebDriver_createSession_def
    createExecutor_def local_endpoint_def first_driver_def
    second_driver_def
  have unset: "defaultService installed_world = None"
    by (simp add: installed_world_def)
  have builder: "fst (new_ServiceBuilder installed_world None) = Inr installed_builder"
    by (simp add: eval_defs)
  have got: "fst (getDefaultService installed_world) = Inr (Some 0)"
    by (simp add: eval_defs)
  have made: "fst (new_Driver installed_world None None None) = Inr first_driver"
    by (simp add: eval_defs)
  have again:
    "fst (new_Driver (snd (new_Driver installed_world None None None)) None None None) =
      Inr second_driver"
    by (simp add: eval_defs)
  note idem = getDefaultService_idempotent
    [of installed_world 0 "Error []" installed_builder "Some 0" None None first_driver None None,
      THEN conjunct2, THEN conjunct2, THEN conjunct2, THEN conjunct1, rule_format, OF got]
  then have twice: "getDefaultService (snd (getDefaultService installed_world)) =
       (Inr (Some 0), snd (getDefaultService installed_world))"
    by simp
  show ?thesis
    using unset builder got twice made again by (simp add: second_driver_def)
qed

text \<open>
  Claim C3 as stated fails on a machine without the driver on its search path: nothing is
  stored, the constructor throws, and the call neither stores nor returns a service.
\<close>

theorem getDefaultService_throws_without_driver:
  "defaultService bare_world = None
   \<and> fst (getDefaultService bare_world) = Inl (Error not_found_message)
   \<and> defaultService (snd (getDefaultService bare_world)) = None"
  by (simp add: getDefaultService_def new_ServiceBuilder_def io_findInPath_def
      bare_world_def installed_world_def empty_path_def)

text \<open>
  Claim C5. The constructor of \<^verbatim>\<open>ServiceBuilder\<close> leaves the world as it is: no service is
  made, started or killed. It throws when no path is supplied and the search for the
  default file name finds none, and when the path it resolved (the one supplied, or else the
  one found) is not on disk; a builder it returns holds that resolved path, which exists.
\<close>

theorem new_ServiceBuilder_fails_fast:
  "snd (new_ServiceBuilder w opt_exe) = w
   \<and> (\<not> truthy_string opt_exe \<and> \<not> truthy_string (find_in_path w EDGEDRIVER_EXE True) \<longrightarrow>
        fst (new_ServiceBuilder w opt_exe) = Inl (Error not_found_message))
   \<and> (\<forall>exe. (if truthy_string opt_exe then opt_exe else find_in_path w EDGEDRIVER_EXE True)
               = Some exe \<and> exe \<noteq> [] \<and> \<not> exists_on_disk w exe \<longrightarrow>
        fst (new_ServiceBuilder w opt_exe) = Inl (Error (''File does not exist: '' @ exe)))
   \<and> (\<forall>builder. fst (new_ServiceBuilder w opt_exe) = Inr builder \<longrightarrow>
        exists_on_disk w (priv_exe builder)
        \<and> Some (priv_exe builder) =
            (if truthy_string opt_exe then opt_exe else find_in_path w EDGEDRIVER_EXE True))"
proof (intro conjI allI impI)
  show "snd (new_ServiceBuilder w opt_exe) = w"
    by (rule new_ServiceBuilder_world)
next
  assume "\<not> truthy_string opt_exe \<and> \<not> truthy_string (find_in_path w EDGEDRIVER_EXE True)"
  then show "fst (new_ServiceBuilder w opt_exe) = Inl (Error not_found_message)"
    by (cases "find_in_path w EDGEDRIVER_EXE True")
       (simp_all add: new_ServiceBuilder_def io_findInPath_def)
next
  fix exe
  assume "(if truthy_string opt_exe then opt_exe else find_in_path w EDGEDRIVER_EXE True)
            = Some exe \<and> exe \<noteq> [] \<and> \<not> exists_on_disk w exe"
  then show "fst (new_ServiceBuilder w opt_exe) = Inl (Error (''File does not exist: '' @ exe))"
    by (auto simp: new_ServiceBuilder_def io_findInPath_def fs_existsSync_def
        split: if_splits)
next
  fix builder
  assume ok: "fst (new_ServiceBuilder w opt_exe) = Inr builder"
  then show "exists_on_disk w (priv_exe builder)"
    by (auto simp: new_ServiceBuilder_def io_findInPath_def fs_existsSync_def Let_def
        split: option.splits prod.splits bool.splits if_splits)
  from ok show "Some (priv_exe builder) =
      (if truthy_string opt_exe then opt_exe else find_in_path w EDGEDRIVER_EXE True)"
    by (auto simp: new_ServiceBuilder_def io_findInPath_def fs_existsSync_def Let_def
        split: option.splits prod.splits bool.splits if_splits)
qed

text \<open>
  The three cases on the sample machines: no driver on the search path, a supplied path that
  is not on disk, and the driver found.
\<close>

theorem new_ServiceBuilder_witness:
  "\<not> truthy_string None \<and> \<not> truthy_string (find_in_path bare_world EDGEDRIVER_EXE True)
   \<and> new_ServiceBuilder bare_world None = (Inl (Error not_found_message), bare_world)
   \<and> \<not> exists_on_disk installed_world ''D:/missing.exe''
   \<and> fst (new_ServiceBuilder installed_world (Some ''D:/missing.exe'')) =
       Inl (Error ''File does not exist: D:/missing.exe'')
   \<and> fst (new_ServiceBuilder installed_world None) = Inr installed_builder
   \<and> exists_on_disk installed_world (priv_exe installed_builder)"
proof -
  note eval_defs =
    new_ServiceBuilder_def build_def new_DriverService_def io_findInPath_def
    fs_existsSync_def portprober_findFreePort_def installed_world_def installed_path_def
    installed_disk_def EDGEDRIVER_EXE_def installed_builder_def Let_def
  have nowhere: "\<not> truthy_string (find_in_path bare_world EDGEDRIVER_EXE True)"
    by (simp add: bare_world_def installed_world_def empty_path_def)
  have missing: "\<not> exists_on_disk installed_world ''D:/missing.exe''"
    by (simp add: installed_world_def installed_disk_def)
  have found: "fst (new_ServiceBuilder installed_world None) = Inr installed_builder"
    by (simp add: eval_defs)
  from new_ServiceBuilder_fails_fast [of bare_world None]
    new_ServiceBuilder_fails_fast [of installed_world "Some ''D:/missing.exe''"]
    new_ServiceBuilder_fails_fast [of installed_world None]
  show ?thesis
    using nowhere missing found by (simp add: prod_eq_iff)
qed

text \<open>
  Claim C6. For every negative port \<^verbatim>\<open>usingPort\<close> throws and leaves the builder, its stored
  port included, as it was; the chain \<^verbatim>\<open>new ServiceBuilder().usingPort(port).build()\<close> then
  ends in the error with the world untouched, no service made or started. For every other
  port the call stores the port and returns the builder. \<^verbatim>\<open>build\<close> on a builder whose
  stored port is \<^verbatim>\<open>0\<close> gives the new service the port that the port prober answers, and the
  stored port otherwise; it makes no call on a process, and the new service is not running.
\<close>

theorem usingPort_rejects_negative:
  "(p < 0 \<longrightarrow> isl (fst (usingPort b p)) \<and> snd (usingPort b p) = b
       \<and> isl (fst (custom_service w p)) \<and> snd (custom_service w p) = w)
   \<and> (0 \<le> p \<longrightarrow> usingPort b p = (Inr (b\<lparr>priv_port := p\<rparr>), b\<lparr>priv_port := p\<rparr>))
   \<and> (priv_port b = 0 \<longrightarrow>
        port (service_options (services (snd (build w b)) ! fst (build w b))) = free_port w
        \<and> args (service_options (services (snd (build w b)) ! fst (build w b))) =
            promise_when (free_port w) (\<lambda>n. priv_args b @ [''--port='' @ show_int n]))
   \<and> (priv_port b \<noteq> 0 \<longrightarrow>
        port (service_options (services (snd (build w b)) ! fst (build w b))) =
          Immediate (priv_port b))
   \<and> calls (snd (build w b)) = calls w
   \<and> \<not> fst (DriverService_isRunning (snd (build w b)) (fst (build w b)))"
proof -
  have chain: "isl (fst (custom_service w p)) \<and> snd (custom_service w p) = w" if "p < 0"
    using that new_ServiceBuilder_world [of w None]
    by (auto simp: custom_service_def usingPort_def split: prod.splits sum.splits)
  show ?thesis
    using chain by (simp add: usingPort_def build_eq DriverService_isRunning_def Let_def)
qed

text \<open>
  Port \<open>-1\<close> is refused, port \<open>55555\<close> is stored, and the builder with port \<open>0\<close> builds a
  service on the port the prober found.
\<close>

theorem usingPort_witness:
  "(- 1 :: int) < 0
   \<and> usingPort installed_builder (- 1) =
       (Inl (Error ''port must be >= 0: -1''), installed_builder)
   \<and> snd (custom_service installed_world (- 1)) = installed_world
   \<and> fst (custom_service installed_world (- 1)) = Inl (Error ''port must be >= 0: -1'')
   \<and> (0 :: int) \<le> 55555
   \<and> priv_port (snd (usingPort installed_builder 55555)) = 55555
   \<and> priv_port installed_builder = 0
   \<and> port (service_options (services (snd (build installed_world installed_builder)) ! 0)) =
       Deferred (Fulfilled 17556)
   \<and> args (service_options (services (snd (build installed_world installed_builder)) ! 0)) =
       Fulfilled [''--port=17556'']"
proof -
  note eval_defs =
    new_ServiceBuilder_def build_def new_DriverService_def io_findInPath_def
    fs_existsSync_def portprober_findFreePort_def installed_world_def installed_path_def
    installed_disk_def EDGEDRIVER_EXE_def installed_builder_def Let_def
    usingPort_def custom_service_def
  have message: "show_int (- 1) = ''-1''"
    by (simp add: show_int_def show_nat.simps)
  have probed: "show_int 17556 = ''17556''"
    by (simp add: show_int_def show_nat.simps)
  have thrown: "fst (usingPort installed_builder (- 1)) = Inl (Error ''port must be >= 0: -1'')"
    by (simp add: usingPort_def message)
  have chain: "fst (custom_service installed_world (- 1)) = Inl (Error ''port must be >= 0: -1'')"
    by (simp add: eval_defs message)
  have zero: "priv_port installed_builder = 0"
    by (simp add: installed_builder_def)
  have built: "fst (build installed_world installed_builder) = 0"
    by (simp add: eval_defs)
  have prober: "free_port installed_world = Deferred (Fulfilled 17556)"
    by (simp add: installed_world_def)
  have arguments:
    "args (service_options (services (snd (build installed_world installed_builder)) ! 0)) =
       Fulfilled [''--port=17556'']"
    by (simp add: eval_defs probed)
  from usingPort_rejects_negative [of "- 1" installed_builder installed_world]
    usingPort_rejects_negative [of 55555 installed_builder installed_world]
  show ?thesis
    using thrown chain zero built prober arguments by (simp add: prod_eq_iff)
qed

end
